theory Spec2Isabelle
  imports Main "HOL-Library.Sublist"
begin

section \<open>Python values, exceptions and effects\<close>

text \<open>
  The program is a notebook: a sequence of cells whose statements read and bind names of
  one global namespace, touch the file system, and call libraries that are not part of
  the repository (Spark NLP, LangChain, Chroma, the notebook platform). Names, the file
  system and the widgets are modelled; each library call is a parameter that returns a
  result or an exception and may change the world.
\<close>

text \<open>A document holds its page content and a reference to its metadata dictionary.\<close>

type_synonym ref = nat

record document =
  page_content :: string
  metadata :: ref

datatype 'x exn =
    NameError string
  | KeyError string
  | TypeError
  | IndexError
  | FileExistsError
  | NotADirectoryError
  | OSError
  | WidgetNotDefined string
  | Raised 'x

datatype node = Dir | File

type_synonym filesystem = "string list \<rightharpoonup> node"

record 'w world =
  fs :: filesystem
  widgets :: "string \<rightharpoonup> string"
  hidden :: 'w

text \<open>
  A computation takes a state and returns a result or an exception, with the state it
  left behind: an exception keeps every effect that came before it.
\<close>

type_synonym ('a, 's, 'x) py = "'s \<Rightarrow> ('x exn + 'a) \<times> 's"

type_synonym ('a, 'w, 'x) extcall = "'w world \<Rightarrow> ('x + 'a) \<times> 'w world"

definition py_return :: "'a \<Rightarrow> ('a, 's, 'x) py" where
  "py_return a = (\<lambda>s. (Inr a, s))"

definition py_raise :: "'x exn \<Rightarrow> ('a, 's, 'x) py" where
  "py_raise e = (\<lambda>s. (Inl e, s))"

definition py_bind :: "('a, 's, 'x) py \<Rightarrow> ('a \<Rightarrow> ('b, 's, 'x) py) \<Rightarrow> ('b, 's, 'x) py" where
  "py_bind m f = (\<lambda>s. case m s of (Inl e, s') \<Rightarrow> (Inl e, s') | (Inr a, s') \<Rightarrow> f a s')"

definition py_then :: "(unit, 's, 'x) py \<Rightarrow> ('b, 's, 'x) py \<Rightarrow> ('b, 's, 'x) py" where
  "py_then m n = py_bind m (\<lambda>_. n)"

text \<open>A library call: what it raises is wrapped in \<open>Raised\<close>.\<close>

definition py_ext :: "('a, 'w, 'x) extcall \<Rightarrow> ('a, 'w world, 'x) py" where
  "py_ext m = (\<lambda>w. case m w of (Inl x, w') \<Rightarrow> (Inl (Raised x), w') | (Inr a, w') \<Rightarrow> (Inr a, w'))"

section \<open>The libraries the notebook calls\<close>

datatype 'o pyval =
    Str string
  | Docs "document list"
  | Obj 'o
  | Splitter 'o
  | Name string

text \<open>
  \<open>'o\<close> is a library object, \<open>'x\<close> a library exception, \<open>'w\<close> the part of the
  world the model does not look into. A fluent setter returns the object it configured.
  \<open>resists p w\<close> lists the entries that an attempt to remove the tree at \<open>p\<close> cannot
  delete (permissions, files in use), \<open>mkdir_denied q w\<close> says that the system refuses
  to create the directory \<open>q\<close>, and the fields named \<open>_other\<close> stand for what the
  platform does with a path the model does not interpret.
\<close>

record ('o, 'w, 'x) external =
  nlp_start :: "('o, 'w, 'x) extcall"
  DocumentAssembler :: "('o, 'w, 'x) extcall"
  setInputCol :: "'o \<Rightarrow> string \<Rightarrow> ('o, 'w, 'x) extcall"
  setOutputCol :: "'o \<Rightarrow> string \<Rightarrow> ('o, 'w, 'x) extcall"
  DocumentCharacterTextSplitter :: "('o, 'w, 'x) extcall"
  setInputCols :: "'o \<Rightarrow> string list \<Rightarrow> ('o, 'w, 'x) extcall"
  setChunkSize :: "'o \<Rightarrow> int \<Rightarrow> ('o, 'w, 'x) extcall"
  setChunkOverlap :: "'o \<Rightarrow> int \<Rightarrow> ('o, 'w, 'x) extcall"
  setExplodeSplits :: "'o \<Rightarrow> bool \<Rightarrow> ('o, 'w, 'x) extcall"
  setPatternsAreRegex :: "'o \<Rightarrow> bool \<Rightarrow> ('o, 'w, 'x) extcall"
  setSplitPatterns :: "'o \<Rightarrow> string list \<Rightarrow> ('o, 'w, 'x) extcall"
  setTrimWhitespace :: "'o \<Rightarrow> bool \<Rightarrow> ('o, 'w, 'x) extcall"
  PipelineModel :: "'o list \<Rightarrow> ('o, 'w, 'x) extcall"
  LightPipeline :: "'o \<Rightarrow> ('o, 'w, 'x) extcall"
  annotate :: "'o \<Rightarrow> string \<Rightarrow> (string \<rightharpoonup> string list, 'w, 'x) extcall"
  import_module :: "string \<Rightarrow> (unit, 'w, 'x) extcall"
  pip_install :: "string \<Rightarrow> (unit, 'w, 'x) extcall"
  restartPython :: "(unit, 'w, 'x) extcall"
  nltk_download :: "string \<Rightarrow> (unit, 'w, 'x) extcall"
  fs_cp :: "string \<Rightarrow> string \<Rightarrow> bool \<Rightarrow> (unit, 'w, 'x) extcall"
  resists :: "string list \<Rightarrow> 'w world \<Rightarrow> string list list"
  mkdir_denied :: "string list \<Rightarrow> 'w world \<Rightarrow> bool"
  path_exists_other :: "string \<Rightarrow> 'w world \<Rightarrow> bool"
  rmtree_other :: "string \<Rightarrow> 'w world \<Rightarrow> 'w world"
  makedirs_other :: "string \<Rightarrow> (unit, 'w, 'x) extcall"
  shell_other :: "'o pyval option \<Rightarrow> 'w world \<Rightarrow> 'w world"
  repr :: "'o pyval \<Rightarrow> string"
  PyPDFDirectoryLoader :: "string \<Rightarrow> ('o, 'w, 'x) extcall"
  loader_load :: "'o \<Rightarrow> (document list, 'w, 'x) extcall"
  display :: "'o pyval \<Rightarrow> (unit, 'w, 'x) extcall"
  print_line :: "string \<Rightarrow> (unit, 'w, 'x) extcall"
  JohnSnowLabsLangChainEmbedder :: "string \<Rightarrow> ('o, 'w, 'x) extcall"
  Chroma_from_documents :: "string \<Rightarrow> document list \<Rightarrow> 'o \<Rightarrow> string \<Rightarrow> ('o, 'w, 'x) extcall"
  persist :: "'o \<Rightarrow> (unit, 'w, 'x) extcall"
  similarity_search :: "'o \<Rightarrow> string \<Rightarrow> (document list, 'w, 'x) extcall"
  Chroma :: "string \<Rightarrow> 'o \<Rightarrow> string \<Rightarrow> ('o, 'w, 'x) extcall"

section \<open>The chunker: \<open>split_hay_doc\<close>, \<open>split_hay_docs\<close>, \<open>JslCharSplitter\<close>\<close>

definition subscript :: "('k \<rightharpoonup> 'v) \<Rightarrow> 'k \<Rightarrow> (string \<Rightarrow> 'x exn) \<Rightarrow> string \<Rightarrow> ('v, 's, 'x) py" where
  "subscript d k err shown = (case d k of None \<Rightarrow> py_raise (err shown) | Some v \<Rightarrow> py_return v)"

text \<open>
  \<open>split_hay_doc\<close> imports \<open>Document\<close>, runs the pipeline on the page content, reads the
  \<open>splits\<close> entry of the result, and builds one document per split, passing
  \<open>doc.metadata\<close> itself to the constructor. LangChain's \<open>Document\<close> is taken to keep
  the content and the reference it is given; whether it copies the dictionary is not
  looked into, and no theorem of this file rests on it.
\<close>

definition split_hay_doc ::
  "('o, 'w, 'x) external \<Rightarrow> 'o \<Rightarrow> document \<Rightarrow> (document list, 'w world, 'x) py" where
  "split_hay_doc X pipe doc =
     py_then (py_ext (import_module X ''langchain.schema.document.Document''))
    (py_bind (py_ext (annotate X pipe (page_content doc))) (\<lambda>result.
     py_bind (subscript result ''splits'' KeyError ''splits'') (\<lambda>splits.
     py_return (map (\<lambda>split. \<lparr>page_content = split, metadata = metadata doc\<rparr>) splits))))"

fun split_hay_docs ::
  "('o, 'w, 'x) external \<Rightarrow> 'o \<Rightarrow> document list \<Rightarrow> (document list, 'w world, 'x) py" where
  "split_hay_docs X pipe [] = py_return []"
| "split_hay_docs X pipe (doc # docs) =
     py_bind (split_hay_doc X pipe doc) (\<lambda>splits.
     py_bind (split_hay_docs X pipe docs) (\<lambda>rest.
     py_return (splits @ rest)))"

record splitter_args =
  chunk_overlap :: int
  chunk_size :: int
  explode_splits :: bool
  keep_seperators :: bool
  patterns_are_regex :: bool
  split_patterns :: "string list"
  trim_whitespace :: bool

definition default_args :: splitter_args where
  "default_args =
     \<lparr>chunk_overlap = 2, chunk_size = 20, explode_splits = True, keep_seperators = True,
      patterns_are_regex = False,
      split_patterns = [[CHR 0x0A, CHR 0x0A], [CHR 0x0A], '' '', ''''],
      trim_whitespace = True\<rparr>"

text \<open>
  The constructor starts Spark NLP, configures a document assembler and a text splitter,
  and wraps both in a light pipeline, which is the instance's only attribute. It compares
  no argument with another, and \<open>keep_seperators\<close> is passed to no setter (the call is
  commented out in the source).
\<close>

definition JslCharSplitter ::
  "('o, 'w, 'x) external \<Rightarrow> splitter_args \<Rightarrow> ('o, 'w world, 'x) py" where
  "JslCharSplitter X a =
     py_bind (py_ext (nlp_start X)) (\<lambda>spark.
     py_bind (py_ext (DocumentAssembler X)) (\<lambda>d0.
     py_bind (py_ext (setInputCol X d0 ''text'')) (\<lambda>d1.
     py_bind (py_ext (setOutputCol X d1 ''document'')) (\<lambda>documentAssembler.
     py_bind (py_ext (DocumentCharacterTextSplitter X)) (\<lambda>t0.
     py_bind (py_ext (setInputCols X t0 [''document''])) (\<lambda>t1.
     py_bind (py_ext (setOutputCol X t1 ''splits'')) (\<lambda>t2.
     py_bind (py_ext (setChunkSize X t2 (chunk_size a))) (\<lambda>t3.
     py_bind (py_ext (setChunkOverlap X t3 (chunk_overlap a))) (\<lambda>t4.
     py_bind (py_ext (setExplodeSplits X t4 (explode_splits a))) (\<lambda>t5.
     py_bind (py_ext (setPatternsAreRegex X t5 (patterns_are_regex a))) (\<lambda>t6.
     py_bind (py_ext (setSplitPatterns X t6 (split_patterns a))) (\<lambda>t7.
     py_bind (py_ext (setTrimWhitespace X t7 (trim_whitespace a))) (\<lambda>textSplitter.
     py_bind (py_ext (PipelineModel X [documentAssembler, textSplitter])) (\<lambda>model.
     py_ext (LightPipeline X model)))))))))))))))"

definition split_documents ::
  "('o, 'w, 'x) external \<Rightarrow> 'o \<Rightarrow> document list \<Rightarrow> (document list, 'w world, 'x) py" where
  "split_documents X self_pipe docs = split_hay_docs X self_pipe docs"

section \<open>The file system\<close>

text \<open>
  A path is the list of its components; a file system maps the paths that exist to what
  is there, a directory or a regular file (links are not modelled). The operations are
  modelled on plain paths only: absolute and written canonically (one slash before each
  component, none at the end), every component made of letters, digits, dots, underscores
  and hyphens, and no component \<open>.\<close> or \<open>..\<close>. Such a path is one shell word that
  no command reads as an option. What happens with any other string is left to the
  parameters named \<open>_other\<close>.
\<close>

fun split_slash :: "string \<Rightarrow> string \<Rightarrow> string list" where
  "split_slash cur [] = (if cur = [] then [] else [cur])"
| "split_slash cur (c # cs) =
     (if c = CHR ''/'' then (if cur = [] then [] else [cur]) @ split_slash [] cs
      else split_slash (cur @ [c]) cs)"

definition components :: "string \<Rightarrow> string list" where
  "components p = split_slash [] p"

definition name_chars :: string where
  "name_chars = ''abcdefghijklmnopqrstuvwxyzABCDEFGHIJKLMNOPQRSTUVWXYZ0123456789._-''"

definition plain_name :: "string \<Rightarrow> bool" where
  "plain_name c = (c \<noteq> ''.'' \<and> c \<noteq> ''..'' \<and> list_all (\<lambda>x. x \<in> set name_chars) c)"

definition plain_path :: "string \<Rightarrow> bool" where
  "plain_path p =
     (components p \<noteq> [] \<and>
      p = concat (map (\<lambda>c. CHR ''/'' # c) (components p)) \<and>
      list_all plain_name (components p))"

text \<open>Every entry lies in directories: what a real file system guarantees.\<close>

definition fs_wf :: "filesystem \<Rightarrow> bool" where
  "fs_wf f = (\<forall>q r. f q \<noteq> None \<and> strict_prefix r q \<and> r \<noteq> [] \<longrightarrow> f r = Some Dir)"

text \<open>
  Removing a tree deletes what it can and goes on after a failure: an entry stays when
  it is, or lies above, an existing entry that resists; everything else at or below
  \<open>p\<close> goes.
\<close>

definition resisting :: "filesystem \<Rightarrow> string list list \<Rightarrow> string list \<Rightarrow> bool" where
  "resisting f stuck q = list_ex (\<lambda>r. prefix q r \<and> f r \<noteq> None) stuck"

definition remove_tree :: "string list list \<Rightarrow> string list \<Rightarrow> filesystem \<Rightarrow> filesystem" where
  "remove_tree stuck p f = (\<lambda>q. if prefix p q \<and> \<not> resisting f stuck q then None else f q)"

text \<open>
  Creating a directory with its parents goes down the path from the root: a directory
  that exists is entered, a file in the way or a refusal of the system stops the walk
  (what was created before stays), a missing directory is created.
\<close>

datatype mkdir_error = FileInTheWay | FileAbove | Refused

fun make_dirs ::
  "(string list \<Rightarrow> bool) \<Rightarrow> string list \<Rightarrow> string list \<Rightarrow> filesystem \<Rightarrow>
   mkdir_error option \<times> filesystem" where
  "make_dirs denied up [] f = (None, f)"
| "make_dirs denied up (c # cs) f =
     (case f (up @ [c]) of
        Some Dir \<Rightarrow> make_dirs denied (up @ [c]) cs f
      | Some File \<Rightarrow> (Some (if cs = [] then FileInTheWay else FileAbove), f)
      | None \<Rightarrow>
          if denied (up @ [c]) then (Some Refused, f)
          else make_dirs denied (up @ [c]) cs (f(up @ [c] \<mapsto> Dir)))"

definition os_path_exists ::
  "('o, 'w, 'x) external \<Rightarrow> string \<Rightarrow> (bool, 'w world, 'x) py" where
  "os_path_exists X p = (\<lambda>w.
     (Inr (if plain_path p then fs w (components p) \<noteq> None else path_exists_other X p w), w))"

text \<open>
  \<open>shutil.rmtree(p, ignore_errors=True)\<close> removes what it can of a directory and all
  below it; on anything else it fails at once. Every failure is swallowed.
\<close>

definition shutil_rmtree_ignore_errors ::
  "('o, 'w, 'x) external \<Rightarrow> string \<Rightarrow> (unit, 'w world, 'x) py" where
  "shutil_rmtree_ignore_errors X p = (\<lambda>w.
     (Inr (),
      if plain_path p
      then (case fs w (components p) of
              Some Dir \<Rightarrow>
                w\<lparr>fs := remove_tree (resists X (components p) w) (components p) (fs w)\<rparr>
            | _ \<Rightarrow> w)
      else rmtree_other X p w))"

text \<open>
  \<open>os.makedirs(p)\<close> creates \<open>p\<close> and its missing parents. It raises \<open>FileExistsError\<close>
  when \<open>p\<close> exists, \<open>NotADirectoryError\<close> when a file is above \<open>p\<close>, and another
  \<open>OSError\<close> when the system refuses a directory. The exceptions are told apart by
  class only.
\<close>

definition os_makedirs ::
  "('o, 'w, 'x) external \<Rightarrow> string \<Rightarrow> (unit, 'w world, 'x) py" where
  "os_makedirs X p =
     (if plain_path p
      then (\<lambda>w.
        if fs w (components p) \<noteq> None then (Inl FileExistsError, w)
        else (case make_dirs (\<lambda>q. mkdir_denied X q w) [] (components p) (fs w) of
                (None, f') \<Rightarrow> (Inr (), w\<lparr>fs := f'\<rparr>)
              | (Some FileInTheWay, f') \<Rightarrow> (Inl FileExistsError, w\<lparr>fs := f'\<rparr>)
              | (Some FileAbove, f') \<Rightarrow> (Inl NotADirectoryError, w\<lparr>fs := f'\<rparr>)
              | (Some Refused, f') \<Rightarrow> (Inl OSError, w\<lparr>fs := f'\<rparr>)))
      else py_ext (makedirs_other X p))"

text \<open>
  The shell commands of the notebook, on the components of a plain path. \<open>rm -r p\<close>
  fails on a missing path; otherwise it removes what it can of the file or tree and
  succeeds when \<open>p\<close> itself is gone. \<open>mkdir -p p\<close> creates \<open>p\<close> and its missing
  parents and succeeds also when \<open>p\<close> is a directory already. Each returns its exit
  status (\<open>True\<close> for 0) and the world it leaves.
\<close>

definition sh_rm_r ::
  "('o, 'w, 'x) external \<Rightarrow> string list \<Rightarrow> 'w world \<Rightarrow> bool \<times> 'w world" where
  "sh_rm_r X p w =
     (if fs w p = None then (False, w)
      else (remove_tree (resists X p w) p (fs w) p = None,
            w\<lparr>fs := remove_tree (resists X p w) p (fs w)\<rparr>))"

definition sh_mkdir_p ::
  "('o, 'w, 'x) external \<Rightarrow> string list \<Rightarrow> 'w world \<Rightarrow> bool \<times> 'w world" where
  "sh_mkdir_p X p w =
     (case make_dirs (\<lambda>q. mkdir_denied X q w) [] p (fs w) of
        (e, f') \<Rightarrow> (e = None, w\<lparr>fs := f'\<rparr>))"

section \<open>The notebook\<close>

text \<open>
  \<open>globals\<close> is the namespace the cells share, \<open>fresh\<close> the namespace a restarted Python
  process begins with (the names the platform provides, such as \<open>dbutils\<close> and
  \<open>display\<close>).
\<close>

record ('o, 'w) notebook =
  globals :: "string \<rightharpoonup> 'o pyval"
  fresh :: "string \<rightharpoonup> 'o pyval"
  world :: "'w world"

definition in_world :: "('a, 'w world, 'x) py \<Rightarrow> ('a, ('o, 'w) notebook, 'x) py" where
  "in_world m = (\<lambda>s. case m (world s) of (r, w') \<Rightarrow> (r, s\<lparr>world := w'\<rparr>))"

definition lookup :: "string \<Rightarrow> ('o pyval, ('o, 'w) notebook, 'x) py" where
  "lookup n = (\<lambda>s. case globals s n of None \<Rightarrow> (Inl (NameError n), s) | Some v \<Rightarrow> (Inr v, s))"

definition assign :: "string \<Rightarrow> 'o pyval \<Rightarrow> (unit, ('o, 'w) notebook, 'x) py" where
  "assign n v = (\<lambda>s. (Inr (), s\<lparr>globals := (globals s)(n \<mapsto> v)\<rparr>))"

text \<open>
  A value of the wrong kind for an operation raises \<open>TypeError\<close> (Python's
  \<open>AttributeError\<close> is not told apart from it).
\<close>

definition as_str :: "'o pyval \<Rightarrow> (string, 's, 'x) py" where
  "as_str v = (case v of Str t \<Rightarrow> py_return t | _ \<Rightarrow> py_raise TypeError)"

definition as_docs :: "'o pyval \<Rightarrow> (document list, 's, 'x) py" where
  "as_docs v = (case v of Docs ds \<Rightarrow> py_return ds | _ \<Rightarrow> py_raise TypeError)"

definition as_obj :: "'o pyval \<Rightarrow> ('o, 's, 'x) py" where
  "as_obj v = (case v of Obj b \<Rightarrow> py_return b | _ \<Rightarrow> py_raise TypeError)"

definition as_splitter :: "'o pyval \<Rightarrow> ('o, 's, 'x) py" where
  "as_splitter v = (case v of Splitter b \<Rightarrow> py_return b | _ \<Rightarrow> py_raise TypeError)"

definition as_name :: "string \<Rightarrow> 'o pyval \<Rightarrow> (unit, 's, 'x) py" where
  "as_name q v =
     (case v of Name q' \<Rightarrow> if q' = q then py_return () else py_raise TypeError
      | _ \<Rightarrow> py_raise TypeError)"

definition the_name :: "string \<Rightarrow> string \<Rightarrow> (unit, ('o, 'w) notebook, 'x) py" where
  "the_name q n = py_bind (lookup n) (as_name q)"

definition import_as ::
  "('o, 'w, 'x) external \<Rightarrow> string \<Rightarrow> string \<Rightarrow> (unit, ('o, 'w) notebook, 'x) py" where
  "import_as X q n = py_then (in_world (py_ext (import_module X q))) (assign n (Name q))"

definition format_value :: "('o, 'w, 'x) external \<Rightarrow> 'o pyval \<Rightarrow> string" where
  "format_value X v = (case v of Str t \<Rightarrow> t | _ \<Rightarrow> repr X v)"

definition py_len :: "'o pyval \<Rightarrow> (nat, 's, 'x) py" where
  "py_len v =
     (case v of Docs ds \<Rightarrow> py_return (length ds) | Str t \<Rightarrow> py_return (length t)
      | _ \<Rightarrow> py_raise TypeError)"

definition lstrip :: "string \<Rightarrow> string \<Rightarrow> string" where
  "lstrip chars t = dropWhile (\<lambda>c. c \<in> set chars) t"

text \<open>
  \<open>dbutils.widgets.text\<close> creates a widget with its default unless the widget is there
  already; \<open>dbutils.widgets.get\<close> reads the current value.
\<close>

definition widgets_text :: "string \<Rightarrow> string \<Rightarrow> (unit, 'w world, 'x) py" where
  "widgets_text n d = (\<lambda>w.
     (Inr (), if widgets w n = None then w\<lparr>widgets := (widgets w)(n \<mapsto> d)\<rparr> else w))"

definition widgets_get :: "string \<Rightarrow> (string, 'w world, 'x) py" where
  "widgets_get n = (\<lambda>w.
     case widgets w n of None \<Rightarrow> (Inl (WidgetNotDefined n), w) | Some v \<Rightarrow> (Inr v, w))"

subsection \<open>The cells, in the order of the source\<close>

text \<open>\<open>%run ./util/install-prep-libraries\<close>: install, restart Python, load NLTK data.\<close>

definition cell_install :: "('o, 'w, 'x) external \<Rightarrow> (unit, ('o, 'w) notebook, 'x) py" where
  "cell_install X =
     py_then (in_world (py_ext (pip_install X ''-U transformers==4.29.2 sentence-transformers==2.2.2 langchain==0.0.190 chromadb==0.3.25 pypdf==3.9.1 pycryptodome==3.18.0 accelerate==0.19.0 unstructured==0.7.1 unstructured[local-inference]==0.7.1 sacremoses==0.0.53 ninja==1.11.1 tiktoken johnsnowlabs==5.1.8rc2'')))
    (py_then (the_name ''dbutils'' ''dbutils'')
    (py_then (in_world (py_ext (restartPython X)))
    (py_then (\<lambda>s. (Inr (), s\<lparr>globals := fresh s\<rparr>))
    (py_then (import_as X ''nltk'' ''nltk'')
    (py_then (the_name ''nltk'' ''nltk'')
             (in_world (py_ext (nltk_download X ''punkt''))))))))"

definition widget_text ::
  "string \<Rightarrow> string \<Rightarrow> (unit, ('o, 'w) notebook, 'x) py" where
  "widget_text n d = py_then (the_name ''dbutils'' ''dbutils'') (in_world (widgets_text n d))"

definition cell_widgets :: "(unit, ('o, 'w) notebook, 'x) py" where
  "cell_widgets =
     py_then (widget_text ''PDF_Path'' ''/dbfs/tmp/langchain_hls/pdfs'')
    (py_then (widget_text ''Embeddings_Model'' ''en.embed_sentence.bert_base_uncased'')
    (py_then (widget_text ''Vectorstore_Persist_Path'' ''/dbfs/tmp/langchain_hls/db'')
             (widget_text ''Source_Documents'' ''s3a://db-gtm-industry-solutions/data/hls/llm_qa/'')))"

definition widget_get ::
  "string \<Rightarrow> string \<Rightarrow> (unit, ('o, 'w) notebook, 'x) py" where
  "widget_get n wn =
     py_then (the_name ''dbutils'' ''dbutils'')
    (py_bind (in_world (widgets_get wn)) (\<lambda>v. assign n (Str v)))"

definition cell_get_widgets :: "(unit, ('o, 'w) notebook, 'x) py" where
  "cell_get_widgets =
     py_then (widget_get ''pdf_path'' ''PDF_Path'')
    (py_then (widget_get ''source_pdfs'' ''Source_Documents'')
    (py_then (widget_get ''db_persist_path'' ''Vectorstore_Persist_Path'')
             (widget_get ''embeddings_model'' ''Embeddings_Model'')))"

definition cell_import_os :: "('o, 'w, 'x) external \<Rightarrow> (unit, ('o, 'w) notebook, 'x) py" where
  "cell_import_os X = import_as X ''os'' ''os''"

text \<open>
  Lines 79 to 81: when the PDF directory exists it is removed (errors ignored), then it
  is created. No flag guards the removal.
\<close>

definition stmt_reset_pdf_dir ::
  "('o, 'w, 'x) external \<Rightarrow> (unit, ('o, 'w) notebook, 'x) py" where
  "stmt_reset_pdf_dir X =
     py_then (the_name ''os'' ''os'')
    (py_bind (py_bind (lookup ''pdf_path'') as_str) (\<lambda>p.
     py_bind (in_world (os_path_exists X p)) (\<lambda>there.
     py_then (if there
              then py_then (the_name ''shutil'' ''shutil'')
                  (py_bind (py_bind (lookup ''pdf_path'') as_str) (\<lambda>p'.
                   in_world (shutil_rmtree_ignore_errors X p')))
              else py_return ())
    (py_then (the_name ''os'' ''os'')
    (py_bind (py_bind (lookup ''pdf_path'') as_str) (\<lambda>p''.
     in_world (os_makedirs X p'')))))))"

definition stmt_modified_pdf_path :: "(unit, ('o, 'w) notebook, 'x) py" where
  "stmt_modified_pdf_path =
     py_bind (py_bind (lookup ''pdf_path'') as_str) (\<lambda>p.
     assign ''modified_pdf_path'' (Str (''dbfs:/'' @ lstrip ''/dbfs'' p)))"

definition stmt_copy_pdfs :: "('o, 'w, 'x) external \<Rightarrow> (unit, ('o, 'w) notebook, 'x) py" where
  "stmt_copy_pdfs X =
     py_then (the_name ''dbutils'' ''dbutils'')
    (py_bind (lookup ''source_pdfs'') (\<lambda>src.
     py_bind (lookup ''modified_pdf_path'') (\<lambda>dst.
     py_bind (as_str src) (\<lambda>src'.
     py_bind (as_str dst) (\<lambda>dst'.
     in_world (py_ext (fs_cp X src' dst' True)))))))"

definition cell_stage_pdfs :: "('o, 'w, 'x) external \<Rightarrow> (unit, ('o, 'w) notebook, 'x) py" where
  "cell_stage_pdfs X =
     py_then (import_as X ''os'' ''os'')
    (py_then (import_as X ''shutil'' ''shutil'')
    (py_then (stmt_reset_pdf_dir X)
    (py_then stmt_modified_pdf_path
             (stmt_copy_pdfs X))))"

text \<open>
  Line 114, \<open>!(rm -r {db_persist_path} || true) && mkdir -p {db_persist_path}\<close>: the
  shell tries to remove the directory and then to create it, whatever the status of the
  removal, and raises nothing in Python. The commands are modelled where the name is
  bound to a plain path; any other command line is left to \<open>shell_other\<close>.
\<close>

definition cell_prepare_db_dir ::
  "('o, 'w, 'x) external \<Rightarrow> (unit, ('o, 'w) notebook, 'x) py" where
  "cell_prepare_db_dir X = (\<lambda>s.
     (Inr (),
      case globals s ''db_persist_path'' of
        Some (Str p) \<Rightarrow>
          if plain_path p
          then s\<lparr>world :=
                 snd (sh_mkdir_p X (components p) (snd (sh_rm_r X (components p) (world s))))\<rparr>
          else s\<lparr>world := shell_other X (Some (Str p)) (world s)\<rparr>
      | v \<Rightarrow> s\<lparr>world := shell_other X v (world s)\<rparr>))"

definition cell_load_pdfs :: "('o, 'w, 'x) external \<Rightarrow> (unit, ('o, 'w) notebook, 'x) py" where
  "cell_load_pdfs X =
     py_then (import_as X ''langchain.docstore.document.Document'' ''Document'')
    (py_then (import_as X ''langchain.document_loaders.PyPDFDirectoryLoader'' ''PyPDFDirectoryLoader'')
    (py_then (py_bind (lookup ''pdf_path'') (\<lambda>p.
              assign ''loader_path'' (Str (format_value X p @ ''/''))))
    (py_then (py_bind (lookup ''PyPDFDirectoryLoader'') (\<lambda>cls.
              py_bind (lookup ''loader_path'') (\<lambda>lp.
              py_then (as_name ''langchain.document_loaders.PyPDFDirectoryLoader'' cls)
             (py_bind (as_str lp) (\<lambda>lp'.
              py_bind (in_world (py_ext (PyPDFDirectoryLoader X lp'))) (\<lambda>l.
              assign ''pdf_loader'' (Obj l)))))))
    (py_then (py_bind (py_bind (lookup ''pdf_loader'') as_obj) (\<lambda>l.
              py_bind (in_world (py_ext (loader_load X l))) (\<lambda>ds.
              assign ''docs'' (Docs ds))))
             (py_bind (py_bind (lookup ''docs'') py_len) (\<lambda>_. py_return ()))))))"

definition cell_define_splitter ::
  "('o, 'w, 'x) external \<Rightarrow> (unit, ('o, 'w) notebook, 'x) py" where
  "cell_define_splitter X =
     py_then (import_as X ''johnsnowlabs.nlp'' ''nlp'')
    (py_then (assign ''split_hay_doc'' (Name ''split_hay_doc''))
    (py_then (assign ''split_hay_docs'' (Name ''split_hay_docs''))
             (assign ''JslCharSplitter'' (Name ''JslCharSplitter''))))"

text \<open>Line 194: \<open>jsl_splitter = JslCharSplitter(chunk_size=1000, chunk_overlap=0)\<close>.\<close>

definition stmt_make_splitter ::
  "('o, 'w, 'x) external \<Rightarrow> (unit, ('o, 'w) notebook, 'x) py" where
  "stmt_make_splitter X =
     py_then (the_name ''JslCharSplitter'' ''JslCharSplitter'')
    (py_then (the_name ''johnsnowlabs.nlp'' ''nlp'')
    (py_bind (in_world (JslCharSplitter X (default_args\<lparr>chunk_size := 1000, chunk_overlap := 0\<rparr>)))
       (\<lambda>p. assign ''jsl_splitter'' (Splitter p))))"

text \<open>
  Line 195: \<open>texts = jsl_splitter.split_documents(docs)\<close>. The chunks are bound to the
  name \<open>texts\<close>.
\<close>

definition stmt_split_docs ::
  "('o, 'w, 'x) external \<Rightarrow> (unit, ('o, 'w) notebook, 'x) py" where
  "stmt_split_docs X =
     py_bind (py_bind (lookup ''jsl_splitter'') as_splitter) (\<lambda>p.
     py_bind (lookup ''docs'') (\<lambda>d.
     py_then (the_name ''split_hay_docs'' ''split_hay_docs'')
    (py_bind (as_docs d) (\<lambda>ds.
     py_then (if ds = [] then py_return () else the_name ''split_hay_doc'' ''split_hay_doc'')
    (py_bind (in_world (split_documents X p ds)) (\<lambda>chunks.
     assign ''texts'' (Docs chunks)))))))"

definition cell_split :: "('o, 'w, 'x) external \<Rightarrow> (unit, ('o, 'w) notebook, 'x) py" where
  "cell_split X = py_then (stmt_make_splitter X) (stmt_split_docs X)"

text \<open>Line 199: \<open>display(documents)\<close>.\<close>

definition show_name ::
  "('o, 'w, 'x) external \<Rightarrow> string \<Rightarrow> (unit, ('o, 'w) notebook, 'x) py" where
  "show_name X n =
     py_bind (lookup ''display'') (\<lambda>f.
     py_bind (lookup n) (\<lambda>v.
     py_then (as_name ''display'' f)
             (in_world (py_ext (display X v)))))"

definition cell_display_documents ::
  "('o, 'w, 'x) external \<Rightarrow> (unit, ('o, 'w) notebook, 'x) py" where
  "cell_display_documents X = show_name X ''documents''"

definition stmt_embeddings ::
  "('o, 'w, 'x) external \<Rightarrow> (unit, ('o, 'w) notebook, 'x) py" where
  "stmt_embeddings X =
     py_then (the_name ''johnsnowlabs.llm.embedding_retrieval'' ''embedding_retrieval'')
    (py_bind (py_bind (lookup ''embeddings_model'') as_str) (\<lambda>m.
     py_bind (in_world (py_ext (JohnSnowLabsLangChainEmbedder X m))) (\<lambda>e.
     assign ''embeddings'' (Obj e))))"

text \<open>
  Line 209: \<open>db = Chroma.from_documents(collection_name="hls_docs", documents=documents,
  embedding=embeddings, persist_directory=db_persist_path)\<close>. Python evaluates the callee,
  then the arguments from left to right, then calls.
\<close>

definition stmt_from_documents ::
  "('o, 'w, 'x) external \<Rightarrow> (unit, ('o, 'w) notebook, 'x) py" where
  "stmt_from_documents X =
     py_then (the_name ''langchain.vectorstores.Chroma'' ''Chroma'')
    (py_bind (lookup ''documents'') (\<lambda>d.
     py_bind (lookup ''embeddings'') (\<lambda>e.
     py_bind (lookup ''db_persist_path'') (\<lambda>p.
     py_bind (as_docs d) (\<lambda>ds.
     py_bind (as_obj e) (\<lambda>emb.
     py_bind (as_str p) (\<lambda>dir.
     py_bind (in_world (py_ext (Chroma_from_documents X ''hls_docs'' ds emb dir))) (\<lambda>db.
     assign ''db'' (Obj db)))))))))"

definition stmt_persist :: "('o, 'w, 'x) external \<Rightarrow> (unit, ('o, 'w) notebook, 'x) py" where
  "stmt_persist X =
     py_bind (py_bind (lookup ''db'') as_obj) (\<lambda>db. in_world (py_ext (persist X db)))"

definition cell_create_db :: "('o, 'w, 'x) external \<Rightarrow> (unit, ('o, 'w) notebook, 'x) py" where
  "cell_create_db X =
     py_then (import_as X ''langchain.vectorstores.Chroma'' ''Chroma'')
    (py_then (import_as X ''johnsnowlabs.llm.embedding_retrieval'' ''embedding_retrieval'')
    (py_then (stmt_embeddings X)
    (py_then (assign ''sample_query'' (Str ''What is cystic fibrosis?''))
    (py_then (stmt_from_documents X)
             (stmt_persist X)))))"






definition run_cells ::
  "(unit, ('o, 'w) notebook, 'x) py list \<Rightarrow> ('o, 'w) notebook \<Rightarrow> ('o, 'w) notebook" where
  "run_cells cs s = fold (\<lambda>c t. snd (c t)) cs s"

section \<open>A library double and concrete inputs\<close>

text \<open>
  A stand-in for the libraries, used to run the model on concrete inputs. An object
  records its class, the settings it was given and its parts. Every call succeeds but
  one: \<open>setChunkOverlap\<close> rejects a value above the chunk size the splitter holds,
  as the setter of Spark NLP does. The loader returns the documents the double is set up
  with, the pipeline returns a non-empty text as one split, every removal succeeds and no
  directory is refused.
\<close>

datatype setting =
    SInt string int
  | SBool string bool
  | SStr string string
  | SStrs string "string list"

datatype stub = Stub string "setting list" "stub list"

fun stub_set :: "setting \<Rightarrow> stub \<Rightarrow> stub" where
  "stub_set v (Stub c ss ps) = Stub c (ss @ [v]) ps"

fun chunk_size_of :: "setting list \<Rightarrow> int option" where
  "chunk_size_of [] = None"
| "chunk_size_of (SInt k n # ss) =
     (case chunk_size_of ss of
        Some m \<Rightarrow> Some m
      | None \<Rightarrow> if k = ''chunkSize'' then Some n else None)"
| "chunk_size_of (_ # ss) = chunk_size_of ss"

fun stub_chunk_size :: "stub \<Rightarrow> int option" where
  "stub_chunk_size (Stub c ss ps) = chunk_size_of ss"

definition ok :: "'a \<Rightarrow> ('a, unit, unit) extcall" where
  "ok a = (\<lambda>w. (Inr a, w))"

definition rejected :: "('a, unit, unit) extcall" where
  "rejected = (\<lambda>w. (Inl (), w))"

definition stub_external :: "document list \<Rightarrow> (stub, unit, unit) external" where
  "stub_external ds =
     \<lparr>nlp_start = ok (Stub ''SparkSession'' [] []),
      DocumentAssembler = ok (Stub ''DocumentAssembler'' [] []),
      setInputCol = (\<lambda>b v. ok (stub_set (SStr ''inputCol'' v) b)),
      setOutputCol = (\<lambda>b v. ok (stub_set (SStr ''outputCol'' v) b)),
      DocumentCharacterTextSplitter = ok (Stub ''DocumentCharacterTextSplitter'' [] []),
      setInputCols = (\<lambda>b v. ok (stub_set (SStrs ''inputCols'' v) b)),
      setChunkSize = (\<lambda>b v. ok (stub_set (SInt ''chunkSize'' v) b)),
      setChunkOverlap =
        (\<lambda>b v. case stub_chunk_size b of
                 Some n \<Rightarrow> if n < v then rejected else ok (stub_set (SInt ''chunkOverlap'' v) b)
               | None \<Rightarrow> ok (stub_set (SInt ''chunkOverlap'' v) b)),
      setExplodeSplits = (\<lambda>b v. ok (stub_set (SBool ''explodeSplits'' v) b)),
      setPatternsAreRegex = (\<lambda>b v. ok (stub_set (SBool ''patternsAreRegex'' v) b)),
      setSplitPatterns = (\<lambda>b v. ok (stub_set (SStrs ''splitPatterns'' v) b)),
      setTrimWhitespace = (\<lambda>b v. ok (stub_set (SBool ''trimWhitespace'' v) b)),
      PipelineModel = (\<lambda>stages. ok (Stub ''PipelineModel'' [] stages)),
      LightPipeline = (\<lambda>m. ok (Stub ''LightPipeline'' [] [m])),
      annotate = (\<lambda>b t. ok [''document'' \<mapsto> [t], ''splits'' \<mapsto> (if t = [] then [] else [t])]),
      import_module = (\<lambda>q. ok ()),
      pip_install = (\<lambda>pkgs. ok ()),
      restartPython = ok (),
      nltk_download = (\<lambda>n. ok ()),
      fs_cp = (\<lambda>src dst recurse. ok ()),
      resists = (\<lambda>p w. []),
      mkdir_denied = (\<lambda>q w. False),
      path_exists_other = (\<lambda>p w. False),
      rmtree_other = (\<lambda>p w. w),
      makedirs_other = (\<lambda>p. ok ()),
      shell_other = (\<lambda>v w. w),
      repr = (\<lambda>v. ''<object>''),
      PyPDFDirectoryLoader = (\<lambda>p. ok (Stub ''PyPDFDirectoryLoader'' [SStr ''path'' p] [])),
      loader_load = (\<lambda>l. ok ds),
      display = (\<lambda>v. ok ()),
      print_line = (\<lambda>t. ok ()),
      JohnSnowLabsLangChainEmbedder =
        (\<lambda>m. ok (Stub ''JohnSnowLabsLangChainEmbedder'' [SStr ''model'' m] [])),
      Chroma_from_documents =
        (\<lambda>c docs e p. ok (Stub ''Chroma'' [SStr ''collection_name'' c, SStr ''persist_directory'' p] [e])),
      persist = (\<lambda>db. ok ()),
      similarity_search = (\<lambda>db q. ok []),
      Chroma =
        (\<lambda>c e p. ok (Stub ''Chroma'' [SStr ''collection_name'' c, SStr ''persist_directory'' p] [e]))\<rparr>"

definition platform_names :: "string \<rightharpoonup> stub pyval" where
  "platform_names = [''dbutils'' \<mapsto> Name ''dbutils'', ''display'' \<mapsto> Name ''display'']"

definition new_notebook :: "unit world \<Rightarrow> (stub, unit) notebook" where
  "new_notebook w = \<lparr>globals = platform_names, fresh = platform_names, world = w\<rparr>"

definition empty_world :: "unit world" where
  "empty_world = \<lparr>fs = Map.empty, widgets = Map.empty, hidden = ()\<rparr>"

text \<open>A world in which an earlier run left an index file in the persistence directory.\<close>

definition used_fs :: filesystem where
  "used_fs =
     [[''dbfs''] \<mapsto> Dir,
      [''dbfs'', ''tmp''] \<mapsto> Dir,
      [''dbfs'', ''tmp'', ''langchain_hls''] \<mapsto> Dir,
      [''dbfs'', ''tmp'', ''langchain_hls'', ''db''] \<mapsto> Dir,
      [''dbfs'', ''tmp'', ''langchain_hls'', ''db'', ''index''] \<mapsto> File,
      [''dbfs'', ''tmp'', ''langchain_hls'', ''pdfs''] \<mapsto> Dir,
      [''dbfs'', ''tmp'', ''langchain_hls'', ''pdfs'', ''old.pdf''] \<mapsto> File]"

definition used_world :: "unit world" where
  "used_world = \<lparr>fs = used_fs, widgets = Map.empty, hidden = ()\<rparr>"

text \<open>The names as the first cells leave them with the default widget values.\<close>

definition used_notebook :: "(stub, unit) notebook" where
  "used_notebook =
     \<lparr>globals = platform_names
        (''pdf_path'' \<mapsto> Str ''/dbfs/tmp/langchain_hls/pdfs'',
         ''db_persist_path'' \<mapsto> Str ''/dbfs/tmp/langchain_hls/db'',
         ''os'' \<mapsto> Name ''os'', ''shutil'' \<mapsto> Name ''shutil''),
      fresh = platform_names, world = used_world\<rparr>"


text \<open>
  The notebook after its first nine cells, run in order on the double from a fresh
  namespace and an empty world: the documents are loaded and split.
\<close>

definition chunked :: "document list \<Rightarrow> (stub, unit) notebook" where
  "chunked ds =
     run_cells
       [cell_install (stub_external ds), cell_widgets, cell_get_widgets,
        cell_import_os (stub_external ds), cell_stage_pdfs (stub_external ds),
        cell_prepare_db_dir (stub_external ds), cell_load_pdfs (stub_external ds),
        cell_define_splitter (stub_external ds), cell_split (stub_external ds)]
       (new_notebook empty_world)"

section \<open>Properties\<close>

text \<open>An exception that a library raised, as opposed to one of the notebook's own code.\<close>

definition library_failure :: "'x exn \<Rightarrow> bool" where
  "library_failure e = (case e of Raised x \<Rightarrow> True | _ \<Rightarrow> False)"

definition library_only :: "('a, 's, 'x) py \<Rightarrow> bool" where
  "library_only m = (\<forall>s e. fst (m s) = Inl e \<longrightarrow> library_failure e)"



text \<open>
  What the splitter's setter is taken to do: on a splitter whose chunk size has just been
  set, it rejects every overlap above that size.
\<close>

definition rejects_overlap_above_size :: "('o, 'w, 'x) external \<Rightarrow> bool" where
  "rejects_overlap_above_size X =
     (\<forall>t0 n w0 t w1 v. setChunkSize X t0 n w0 = (Inr t, w1) \<and> n < v \<longrightarrow>
        isl (fst (setChunkOverlap X t v w1)))"

section \<open>The constructor of the chunker\<close>

lemma library_only_ext: "library_only (py_ext m)"
  by (auto simp: library_only_def py_ext_def library_failure_def split: prod.splits sum.splits)

lemma library_only_bind:
  assumes "library_only m" and "\<And>a. library_only (f a)"
  shows "library_only (py_bind m f)"
  unfolding library_only_def
proof (intro allI impI)
  fix s e
  assume r: "fst (py_bind m f s) = Inl e"
  obtain r1 s1 where m: "m s = (r1, s1)" by (cases "m s")
  show "library_failure e"
  proof (cases r1)
    case (Inl e1)
    with m r have "e = e1" by (simp add: py_bind_def)
    moreover from m Inl have "fst (m s) = Inl e1" by simp
    with assms(1) have "library_failure e1" unfolding library_only_def by blast
    ultimately show ?thesis by simp
  next
    case (Inr a)
    with m r have "fst (f a s1) = Inl e" by (simp add: py_bind_def)
    with assms(2) [of a] show ?thesis unfolding library_only_def by blast
  qed
qed

lemma JslCharSplitter_failure: "library_only (JslCharSplitter X a)"
  unfolding JslCharSplitter_def by (intro library_only_bind library_only_ext)

lemma py_ext_InrD: "py_ext m w = (Inr a, w') \<Longrightarrow> m w = (Inr a, w')"
  by (auto simp: py_ext_def split: prod.splits sum.splits)

lemma bind_isl:
  assumes "\<And>a s'. m s = (Inr a, s') \<Longrightarrow> isl (fst (f a s'))"
  shows "isl (fst (py_bind m f s))"
proof (cases "m s")
  case (Pair r s')
  with assms show ?thesis by (cases r) (simp_all add: py_bind_def)
qed

lemma bind_ext_isl: "isl (fst (m w)) \<Longrightarrow> isl (fst (py_bind (py_ext m) f w))"
  by (auto simp: py_bind_def py_ext_def split: prod.splits sum.splits)

lemma bind_cong_at:
  assumes "m s = m' s" and "\<And>a s'. m s = (Inr a, s') \<Longrightarrow> f a s' = f' a s'"
  shows "py_bind m f s = py_bind m' f' s"
proof (cases "m s")
  case (Pair r s')
  with assms(1) have m': "m' s = (r, s')" by simp
  show ?thesis
  proof (cases r)
    case (Inl e)
    with Pair m' show ?thesis by (simp add: py_bind_def)
  next
    case (Inr b)
    with Pair m' assms(2) [of b s'] show ?thesis by (simp add: py_bind_def)
  qed
qed

lemma bind_ext_fail_eq:
  "m = m' \<Longrightarrow> isl (fst (m w)) \<Longrightarrow> py_bind (py_ext m) f w = py_bind (py_ext m') f' w"
  by (auto simp: py_bind_def py_ext_def split: prod.splits sum.splits)

lemma JslCharSplitter_rejected:
  assumes "rejects_overlap_above_size X" and "chunk_size a < chunk_overlap a"
  shows "isl (fst (JslCharSplitter X a w))"
  unfolding JslCharSplitter_def
  apply (rule bind_isl)
  apply (rule bind_isl)
  apply (rule bind_isl)
  apply (rule bind_isl)
  apply (rule bind_isl)
  apply (rule bind_isl)
  apply (rule bind_isl)
  apply (rule bind_isl)
  apply (rule bind_ext_isl)
  apply (drule py_ext_InrD [where m = "setChunkSize X _ _"])
  using assms unfolding rejects_overlap_above_size_def
  apply blast
  done

lemma JslCharSplitter_stops:
  assumes "rejects_overlap_above_size X" and "chunk_size a < chunk_overlap a"
  shows "JslCharSplitter X a w =
         JslCharSplitter
           (X\<lparr>setExplodeSplits := e1, setPatternsAreRegex := e2, setSplitPatterns := e3,
              setTrimWhitespace := e4, PipelineModel := e5, LightPipeline := e6\<rparr>) a w"
  unfolding JslCharSplitter_def
  apply (rule bind_cong_at, simp)
  apply (rule bind_cong_at, simp)
  apply (rule bind_cong_at, simp)
  apply (rule bind_cong_at, simp)
  apply (rule bind_cong_at, simp)
  apply (rule bind_cong_at, simp)
  apply (rule bind_cong_at, simp)
  apply (rule bind_cong_at, simp)
  apply (rule bind_ext_fail_eq, simp)
  apply (drule py_ext_InrD [where m = "setChunkSize X _ _"])
  using assms unfolding rejects_overlap_above_size_def
  apply blast
  done

lemma chunk_size_of_last: "chunk_size_of (ss @ [SInt ''chunkSize'' n]) = Some n"
  by (induction ss rule: chunk_size_of.induct) simp_all

lemma stub_rejects: "rejects_overlap_above_size (stub_external ds)"
  unfolding rejects_overlap_above_size_def
proof (intro allI impI)
  fix t0 :: stub and n w0 t w1 v
  assume h: "setChunkSize (stub_external ds) t0 n w0 = (Inr t, w1) \<and> n < v"
  obtain c ss ps where t0: "t0 = Stub c ss ps" by (cases t0)
  from h t0 have "stub_chunk_size t = Some n"
    by (auto simp: stub_external_def ok_def chunk_size_of_last)
  with h show "isl (fst (setChunkOverlap (stub_external ds) t v w1))"
    by (simp add: stub_external_def rejected_def)
qed

text \<open>
  C4, as the code has it. The constructor has no check of its own: an exception it ends
  with is one a library call raised. Where the splitter's setter rejects an overlap
  above the chunk size, construction with \<open>chunk_overlap > chunk_size\<close> fails at line
  175, and nothing after that line runs: the steps that follow make no difference.
\<close>

theorem JslCharSplitter_fails_where_the_setter_rejects:
  "(case fst (JslCharSplitter X a w) of Inl e \<Rightarrow> library_failure e | Inr p \<Rightarrow> True) \<and>
   (rejects_overlap_above_size X \<and> chunk_size a < chunk_overlap a \<longrightarrow>
      isl (fst (JslCharSplitter X a w)) \<and>
      JslCharSplitter
        (X\<lparr>setExplodeSplits := e1, setPatternsAreRegex := e2, setSplitPatterns := e3,
           setTrimWhitespace := e4, PipelineModel := e5, LightPipeline := e6\<rparr>) a w =
      JslCharSplitter X a w)"
proof (intro conjI impI)
  show "case fst (JslCharSplitter X a w) of Inl e \<Rightarrow> library_failure e | Inr p \<Rightarrow> True"
    using JslCharSplitter_failure [of X a]
    by (cases "fst (JslCharSplitter X a w)") (auto simp: library_only_def)
next
  assume "rejects_overlap_above_size X \<and> chunk_size a < chunk_overlap a"
  then show "isl (fst (JslCharSplitter X a w))"
    by (simp add: JslCharSplitter_rejected)
next
  assume "rejects_overlap_above_size X \<and> chunk_size a < chunk_overlap a"
  then show "JslCharSplitter
        (X\<lparr>setExplodeSplits := e1, setPatternsAreRegex := e2, setSplitPatterns := e3,
           setTrimWhitespace := e4, PipelineModel := e5, LightPipeline := e6\<rparr>) a w =
      JslCharSplitter X a w"
    by (simp add: JslCharSplitter_stops [symmetric])
qed

theorem JslCharSplitter_fails_where_the_setter_rejects_witness:
  "rejects_overlap_above_size (stub_external []) \<and>
   JslCharSplitter (stub_external []) (default_args\<lparr>chunk_overlap := 10, chunk_size := 5\<rparr>)
     empty_world = (Inl (Raised ()), empty_world)"
proof -
  let ?a = "default_args\<lparr>chunk_overlap := 10, chunk_size := 5\<rparr>"
  have lt: "chunk_size ?a < chunk_overlap ?a" by simp
  from JslCharSplitter_fails_where_the_setter_rejects [of "stub_external []" ?a empty_world]
    stub_rejects [of "[]"] lt
  have "isl (fst (JslCharSplitter (stub_external []) ?a empty_world))" by blast
  moreover have "JslCharSplitter (stub_external []) ?a empty_world = (Inl (Raised ()), empty_world)"
    by (simp add: JslCharSplitter_def stub_external_def py_bind_def py_ext_def ok_def
        rejected_def)
  ultimately show ?thesis using stub_rejects [of "[]"] by simp
qed

text \<open>
  C4 as stated fails at the boundary: with \<open>chunk_overlap = chunk_size = 5\<close> the setter
  accepts the overlap and the constructor returns a chunker.
\<close>

theorem overlap_equal_size_accepted:
  "\<not> isl (fst (JslCharSplitter (stub_external [])
       (default_args\<lparr>chunk_overlap := 5, chunk_size := 5\<rparr>) empty_world))"
  by (simp add: JslCharSplitter_def stub_external_def py_bind_def py_ext_def ok_def
      rejected_def)

section \<open>Clearing the staging and persistence directories\<close>

lemmas run_defs =
  py_then_def py_bind_def py_return_def py_raise_def py_ext_def in_world_def lookup_def
  assign_def the_name_def as_name_def as_str_def as_docs_def as_obj_def as_splitter_def
  import_as_def format_value_def py_len_def subscript_def

lemma below_missing:
  "fs_wf f \<Longrightarrow> f p \<noteq> Some Dir \<Longrightarrow> p \<noteq> [] \<Longrightarrow> strict_prefix p q \<Longrightarrow> f q = None"
  unfolding fs_wf_def by blast

lemma below_not_resisting:
  assumes "fs_wf f" and "f p \<noteq> Some Dir" and "p \<noteq> []" and "strict_prefix p q"
  shows "\<not> resisting f stuck q"
proof
  assume "resisting f stuck q"
  then obtain r where r: "prefix q r" "f r \<noteq> None"
    by (auto simp: resisting_def list_ex_iff)
  from assms(4) r(1) have "strict_prefix p r"
    by (meson prefix_order.less_le_trans)
  with assms(1-3) have "f r = None" by (rule below_missing)
  with r(2) show False by simp
qed

lemma make_dirs_elsewhere:
  "\<not> prefix q (up @ cs) \<Longrightarrow> snd (make_dirs denied up cs f) q = f q"
proof (induction cs arbitrary: up f)
  case Nil
  then show ?case by simp
next
  case (Cons c cs)
  from Cons.prems have ne: "q \<noteq> up @ [c]" by auto
  from Cons.prems have np: "\<not> prefix q ((up @ [c]) @ cs)" by simp
  show ?case
    using Cons.IH [OF np] ne
    by (simp split: option.splits node.splits)
qed

lemma make_dirs_below:
  "strict_prefix p q \<Longrightarrow> snd (make_dirs denied [] p f) q = f q"
  using make_dirs_elsewhere [of q "[]" p denied f] by (auto simp: strict_prefix_def)

lemma remove_tree_below:
  "strict_prefix p q \<Longrightarrow>
   remove_tree stuck p f q = (if resisting f stuck q then f q else None)"
  by (simp add: remove_tree_def strict_prefix_def)

lemma plain_path_components: "plain_path p \<Longrightarrow> components p \<noteq> []"
  by (simp add: plain_path_def)

lemma sh_mkdir_p_fs:
  "fs (snd (sh_mkdir_p X p w)) = snd (make_dirs (\<lambda>q. mkdir_denied X q w) [] p (fs w))"
  by (simp add: sh_mkdir_p_def split: prod.splits)

lemma sh_rm_r_fs:
  "fs (snd (sh_rm_r X p w)) =
     (if fs w p = None then fs w else remove_tree (resists X p w) p (fs w))"
  by (simp add: sh_rm_r_def)

lemma os_makedirs_below:
  assumes "plain_path p" and "strict_prefix (components p) q"
  shows "fs (snd (os_makedirs X p w)) q = fs w q"
proof (cases "fs w (components p) = None")
  case True
  obtain e f' where m: "make_dirs (\<lambda>q. mkdir_denied X q w) [] (components p) (fs w) = (e, f')"
    by (cases "make_dirs (\<lambda>q. mkdir_denied X q w) [] (components p) (fs w)")
  from make_dirs_below [OF assms(2), of "\<lambda>q. mkdir_denied X q w" "fs w"] m
  have "f' q = fs w q" by simp
  with True m assms(1) show ?thesis
    by (simp add: os_makedirs_def split: option.splits mkdir_error.splits)
next
  case False
  with assms(1) show ?thesis by (auto simp: os_makedirs_def)
qed

lemma world_in_world: "world (snd (in_world m s)) = snd (m (world s))"
  by (simp add: in_world_def split: prod.splits)

lemma shell_cleanup_below:
  assumes "fs_wf (fs w)" and "p \<noteq> []" and "strict_prefix p q"
  shows "fs (snd (sh_mkdir_p X p (snd (sh_rm_r X p w)))) q =
           (if resisting (fs w) (resists X p w) q then fs w q else None)"
proof (cases "fs w p = None")
  case True
  then have nd: "fs w p \<noteq> Some Dir" by simp
  from assms nd have "fs w q = None" by (rule_tac below_missing)
  moreover from assms nd have "\<not> resisting (fs w) (resists X p w) q"
    by (rule_tac below_not_resisting)
  ultimately show ?thesis
    using True assms(3)
    by (simp add: sh_mkdir_p_fs sh_rm_r_def make_dirs_below)
next
  case False
  with assms(3) show ?thesis
    by (auto simp: sh_mkdir_p_fs sh_rm_r_fs make_dirs_below remove_tree_below)
qed

lemma reset_pdf_dir_world:
  assumes "globals s ''pdf_path'' = Some (Str p)" and "globals s ''os'' = Some (Name ''os'')"
    and "globals s ''shutil'' = Some (Name ''shutil'')" and "plain_path p"
  shows "world (snd (stmt_reset_pdf_dir X s)) =
           snd (os_makedirs X p
             (case fs (world s) (components p) of
                Some Dir \<Rightarrow>
                  (world s)\<lparr>fs := remove_tree (resists X (components p) (world s))
                                     (components p) (fs (world s))\<rparr>
              | _ \<Rightarrow> world s))"
  using assms
  by (auto simp: stmt_reset_pdf_dir_def py_then_def py_bind_def the_name_def lookup_def
      as_name_def as_str_def py_return_def py_raise_def in_world_def os_path_exists_def
      shutil_rmtree_ignore_errors_def
      split: option.splits node.splits prod.splits sum.splits)

lemma reset_pdf_dir_fs:
  assumes "globals s ''pdf_path'' = Some (Str p)" and "globals s ''os'' = Some (Name ''os'')"
    and "globals s ''shutil'' = Some (Name ''shutil'')" and "plain_path p"
    and "strict_prefix (components p) q"
  shows "fs (world (snd (stmt_reset_pdf_dir X s))) q =
           (case fs (world s) (components p) of
              Some Dir \<Rightarrow>
                remove_tree (resists X (components p) (world s)) (components p) (fs (world s)) q
            | _ \<Rightarrow> fs (world s) q)"
  by (simp add: reset_pdf_dir_world [OF assms(1-4)] os_makedirs_below [OF assms(4,5)]
      split: option.splits node.splits)

lemma pdf_cleanup_below:
  assumes "fs_wf (fs (world s))" and "plain_path p" and "strict_prefix (components p) q"
    and "globals s ''pdf_path'' = Some (Str p)" and "globals s ''os'' = Some (Name ''os'')"
    and "globals s ''shutil'' = Some (Name ''shutil'')"
  shows "fs (world (snd (stmt_reset_pdf_dir X s))) q =
           (if resisting (fs (world s)) (resists X (components p) (world s)) q
            then fs (world s) q else None)"
proof (cases "fs (world s) (components p) = Some Dir")
  case True
  with assms(3) show ?thesis
    by (simp add: reset_pdf_dir_fs [OF assms(4-6) assms(2,3)] remove_tree_below)
next
  case False
  note ne = plain_path_components [OF assms(2)]
  from assms(1) False ne assms(3) have "fs (world s) q = None" by (rule below_missing)
  moreover from assms(1) False ne assms(3)
  have "\<not> resisting (fs (world s)) (resists X (components p) (world s)) q"
    by (rule below_not_resisting)
  ultimately show ?thesis
    using False
    by (simp add: reset_pdf_dir_fs [OF assms(4-6) assms(2,3)]
        split: option.splits node.splits)
qed

lemma used_fs_wf: "fs_wf used_fs"
  unfolding fs_wf_def used_fs_def
  by (auto simp: strict_prefix_def prefix_Cons split: if_splits list.splits)

lemma components_db:
  "components ''/dbfs/tmp/langchain_hls/db'' = [''dbfs'', ''tmp'', ''langchain_hls'', ''db'']"
  by (simp add: components_def)

lemma components_pdfs:
  "components ''/dbfs/tmp/langchain_hls/pdfs'' = [''dbfs'', ''tmp'', ''langchain_hls'', ''pdfs'']"
  by (simp add: components_def)

lemma plain_db: "plain_path ''/dbfs/tmp/langchain_hls/db''"
  by (simp add: plain_path_def components_db plain_name_def name_chars_def)

lemma plain_pdfs: "plain_path ''/dbfs/tmp/langchain_hls/pdfs''"
  by (simp add: plain_path_def components_pdfs plain_name_def name_chars_def)

text \<open>
  C3, as the code has it. The notebook has no rebuild option: lines 79 to 81 and line 114
  run unguarded, whatever the widgets hold. For a plain path in a well-formed file
  system, what is left below the path after either step is exactly what resisted the
  removal (those failures are swallowed); every other entry that was there is gone.
\<close>

theorem cleanup_needs_no_request:
  assumes "fs_wf (fs (world s))"
  shows "(globals s ''db_persist_path'' = Some (Str p) \<and> plain_path p \<and>
          strict_prefix (components p) q \<longrightarrow>
            fs (world (snd (cell_prepare_db_dir X s))) q =
              (if resisting (fs (world s)) (resists X (components p) (world s)) q
               then fs (world s) q else None)) \<and>
         (globals s ''pdf_path'' = Some (Str p') \<and> globals s ''os'' = Some (Name ''os'') \<and>
          globals s ''shutil'' = Some (Name ''shutil'') \<and> plain_path p' \<and>
          strict_prefix (components p') q' \<longrightarrow>
            fs (world (snd (stmt_reset_pdf_dir X s))) q' =
              (if resisting (fs (world s)) (resists X (components p') (world s)) q'
               then fs (world s) q' else None))"
proof (intro conjI impI)
  assume h: "globals s ''db_persist_path'' = Some (Str p) \<and> plain_path p \<and>
          strict_prefix (components p) q"
  then have "components p \<noteq> []" by (simp add: plain_path_components)
  with h show "fs (world (snd (cell_prepare_db_dir X s))) q =
              (if resisting (fs (world s)) (resists X (components p) (world s)) q
               then fs (world s) q else None)"
    using shell_cleanup_below [OF assms, of "components p" q X]
    by (simp add: cell_prepare_db_dir_def)
next
  assume "globals s ''pdf_path'' = Some (Str p') \<and> globals s ''os'' = Some (Name ''os'') \<and>
          globals s ''shutil'' = Some (Name ''shutil'') \<and> plain_path p' \<and>
          strict_prefix (components p') q'"
  then show "fs (world (snd (stmt_reset_pdf_dir X s))) q' =
              (if resisting (fs (world s)) (resists X (components p') (world s)) q'
               then fs (world s) q' else None)"
    using pdf_cleanup_below [OF assms, of p' q' X] by simp
qed

theorem cleanup_needs_no_request_witness:
  "fs (world (snd (cell_prepare_db_dir (stub_external []) used_notebook)))
     [''dbfs'', ''tmp'', ''langchain_hls'', ''db'', ''index''] = None \<and>
   fs (world (snd (stmt_reset_pdf_dir (stub_external []) used_notebook)))
     [''dbfs'', ''tmp'', ''langchain_hls'', ''pdfs'', ''old.pdf''] = None"
  using cleanup_needs_no_request [of used_notebook "''/dbfs/tmp/langchain_hls/db''"
      "[''dbfs'', ''tmp'', ''langchain_hls'', ''db'', ''index'']" "stub_external []"
      "''/dbfs/tmp/langchain_hls/pdfs''"
      "[''dbfs'', ''tmp'', ''langchain_hls'', ''pdfs'', ''old.pdf'']"]
    used_fs_wf plain_db plain_pdfs
  by (simp add: used_notebook_def used_world_def components_db components_pdfs
      platform_names_def resisting_def stub_external_def)

lemmas fs_defs =
  os_path_exists_def shutil_rmtree_ignore_errors_def os_makedirs_def sh_rm_r_def
  sh_mkdir_p_def remove_tree_def resisting_def plain_db plain_pdfs components_db
  components_pdfs

text \<open>
  C3 as stated fails: the caller sets no widget at all, and the first six cells still
  remove the index file an earlier run left in the persistence directory.
\<close>

theorem index_file_removed_without_request:
  "dom (widgets used_world) = {} \<and>
   fs used_world [''dbfs'', ''tmp'', ''langchain_hls'', ''db'', ''index''] = Some File \<and>
   fs (world (run_cells
        [cell_install (stub_external []), cell_widgets, cell_get_widgets,
         cell_import_os (stub_external []), cell_stage_pdfs (stub_external []),
         cell_prepare_db_dir (stub_external [])]
        (new_notebook used_world)))
     [''dbfs'', ''tmp'', ''langchain_hls'', ''db'', ''index''] = None"
  by (simp add: run_cells_def cell_install_def cell_widgets_def cell_get_widgets_def
      cell_import_os_def cell_stage_pdfs_def cell_prepare_db_dir_def widget_text_def
      widget_get_def widgets_text_def widgets_get_def stmt_reset_pdf_dir_def
      stmt_modified_pdf_path_def stmt_copy_pdfs_def lstrip_def run_defs stub_external_def ok_def
      new_notebook_def used_world_def used_fs_def platform_names_def fs_defs)

section \<open>The name the ingestion reads\<close>



























section \<open>A run of the notebook on the double\<close>

lemma stub_split_hay_doc:
  "split_hay_doc (stub_external ds') p d =
     (\<lambda>w. (Inr (if page_content d = [] then [] else [d]), w))"
  by (rule ext) (simp add: split_hay_doc_def run_defs stub_external_def ok_def)

lemma stub_split_hay_docs:
  "split_hay_docs (stub_external ds') p ds =
     (\<lambda>w. (Inr (filter (\<lambda>d. page_content d \<noteq> []) ds), w))"
  by (induction ds) (auto simp: stub_split_hay_doc py_bind_def py_return_def)

lemma chunked_globals:
  "globals (chunked ds) =
     [''dbutils'' \<mapsto> Name ''dbutils'', ''display'' \<mapsto> Name ''display'',
      ''nltk'' \<mapsto> Name ''nltk'',
      ''pdf_path'' \<mapsto> Str ''/dbfs/tmp/langchain_hls/pdfs'',
      ''source_pdfs'' \<mapsto> Str ''s3a://db-gtm-industry-solutions/data/hls/llm_qa/'',
      ''db_persist_path'' \<mapsto> Str ''/dbfs/tmp/langchain_hls/db'',
      ''embeddings_model'' \<mapsto> Str ''en.embed_sentence.bert_base_uncased'',
      ''os'' \<mapsto> Name ''os'', ''shutil'' \<mapsto> Name ''shutil'',
      ''modified_pdf_path'' \<mapsto> Str ''dbfs:/tmp/langchain_hls/pdfs'',
      ''Document'' \<mapsto> Name ''langchain.docstore.document.Document'',
      ''PyPDFDirectoryLoader'' \<mapsto> Name ''langchain.document_loaders.PyPDFDirectoryLoader'',
      ''loader_path'' \<mapsto> Str ''/dbfs/tmp/langchain_hls/pdfs/'',
      ''pdf_loader'' \<mapsto>
        Obj (Stub ''PyPDFDirectoryLoader'' [SStr ''path'' ''/dbfs/tmp/langchain_hls/pdfs/''] []),
      ''docs'' \<mapsto> Docs ds,
      ''nlp'' \<mapsto> Name ''johnsnowlabs.nlp'',
      ''split_hay_doc'' \<mapsto> Name ''split_hay_doc'',
      ''split_hay_docs'' \<mapsto> Name ''split_hay_docs'',
      ''JslCharSplitter'' \<mapsto> Name ''JslCharSplitter'',
      ''jsl_splitter'' \<mapsto>
        Splitter
         (Stub ''LightPipeline'' []
           [Stub ''PipelineModel'' []
             [Stub ''DocumentAssembler'' [SStr ''inputCol'' ''text'', SStr ''outputCol'' ''document''] [],
              Stub ''DocumentCharacterTextSplitter''
               [SStrs ''inputCols'' [''document''], SStr ''outputCol'' ''splits'',
                SInt ''chunkSize'' 1000, SInt ''chunkOverlap'' 0, SBool ''explodeSplits'' True,
                SBool ''patternsAreRegex'' False,
                SStrs ''splitPatterns'' [[CHR 0x0A, CHR 0x0A], [CHR 0x0A], '' '', ''''],
                SBool ''trimWhitespace'' True] []]]),
      ''texts'' \<mapsto> Docs (filter (\<lambda>d. page_content d \<noteq> []) ds)]"
  unfolding chunked_def run_cells_def cell_split_def stmt_split_docs_def split_documents_def
    stub_split_hay_docs
  by (simp add: cell_install_def cell_widgets_def cell_get_widgets_def cell_import_os_def
      cell_stage_pdfs_def cell_prepare_db_dir_def cell_load_pdfs_def cell_define_splitter_def
      widget_text_def widget_get_def widgets_text_def widgets_get_def stmt_reset_pdf_dir_def
      stmt_modified_pdf_path_def stmt_copy_pdfs_def stmt_make_splitter_def JslCharSplitter_def
      lstrip_def run_defs fs_defs stub_external_def ok_def new_notebook_def empty_world_def
      platform_names_def components_db components_pdfs default_args_def)



lemmas ingest_defs =
  cell_create_db_def stmt_embeddings_def stmt_from_documents_def stmt_persist_def run_defs


text \<open>
  C9, on the code. Chunking an empty document list returns no chunk and raises nothing.
  With no document loaded, the first nine cells bind \<open>docs\<close> and \<open>texts\<close> to empty
  lists; \<open>display(documents)\<close> and the ingestion cell then raise \<open>NameError\<close>, where the
  claim has no exception.
\<close>

theorem empty_input_ingestion_raises:
  "fst (split_documents X pipe [] w) = Inr [] \<and>
   globals (chunked []) ''docs'' = Some (Docs []) \<and>
   globals (chunked []) ''texts'' = Some (Docs []) \<and>
   fst (cell_display_documents (stub_external []) (chunked [])) = Inl (NameError ''documents'') \<and>
   fst (cell_create_db (stub_external []) (chunked [])) = Inl (NameError ''documents'')"
  by (simp add: split_documents_def py_return_def cell_display_documents_def show_name_def
      ingest_defs chunked_globals stub_external_def ok_def)

end
